theory Spec2Isabelle
  imports Complex_Main "HOL-Library.Word"
begin

section \<open>The Bitcoin base chain adapter of ren-js\<close>

text \<open>
  A shallow embedding of the class \<open>BitcoinBaseChain\<close>. An instance is a record, a
  method is a function of the instance, a thrown \<open>Error\<close> is the left injection of a
  sum, and everything the class imports from modules that are not part of the embedded
  sources is a field of the record \<open>deps\<close>, over which every theorem is universal.
\<close>

subsection \<open>Data model\<close>

type_synonym bytes = "8 word list"

text \<open>The messages of the \<open>Error\<close>s the class throws, one constructor per message
  template, with the interpolated values as arguments. \<open>ProvidersNotIterable\<close> is the
  \<open>TypeError\<close> of the runtime when the constructor's \<open>for ... of\<close> loop is given a
  \<open>providers\<close> that is \<open>undefined\<close>. \<open>ProviderError\<close> is a rejection of a call to
  \<open>this.api\<close> that a method lets through.\<close>

datatype error =
    UnknownNetwork string
  | InvalidNetworkConfig
  | ProvidersNotIterable
  | InvalidPayload string string
  | AssetNotSupported string string
  | InvalidAddress string
  | ProviderError string

record NativeAsset =
  symbol :: string
  decimals :: nat

text \<open>A provider is a backend handle, alone (\<open>BitcoinAPI\<close>) or with a priority of its
  own (\<open>APIWithPriority\<close>).\<close>

datatype provider = BitcoinAPI string | APIWithPriority string int

record BitcoinNetworkConfig =
  selector :: string
  nativeAsset :: NativeAsset
  isTestnet :: bool
  p2shPrefix :: bytes
  providers :: "provider list"

text \<open>\<open>BitcoinNetworkInput\<close>: a selector string or a configuration object. The test
  \<open>isBitcoinNetworkConfig\<close> is the case distinction on \<open>Config\<close>. \<open>Unrecognised\<close>
  is any value that is neither a string nor a configuration, for which the constructor
  has a branch of its own; its argument is the property key the value converts to when
  it is used as an index (\<open>[object Object]\<close> for a plain object).\<close>

datatype BitcoinNetworkInput =
    Selector string
  | Config BitcoinNetworkConfig
  | Unrecognised string

record BitcoinBaseChain =
  chain :: string
  configMap :: "string \<rightharpoonup> BitcoinNetworkConfig"
  network :: BitcoinNetworkConfig
  api :: "(provider \<times> int) list"

text \<open>The \<open>{ chain: string }\<close> payload of a deposit or gateway request.\<close>

record FromPayload =
  payloadChain :: string

record BitcoinReleasePayload =
  address :: string

text \<open>A transaction as the watcher reports it (\<open>InputChainTransaction\<close>), and an
  unspent output as a provider returns it. Identifiers are kept as the strings they
  are; \<open>height\<close> is \<open>None\<close> for the \<open>null\<close> of an output that is not yet in a block.\<close>

record ChainTransaction =
  txid :: string
  txindex :: string
  amount :: string

record UTXO =
  utxoTxid :: string
  utxoTxindex :: string
  utxoAmount :: string
  height :: "int option"

text \<open>The imported functions: \<open>hash160\<close>, \<open>fromHex\<close>, \<open>fromBase64\<close>,
  \<open>toURLBase64\<close> (utils), \<open>createAddressBuffer\<close> (script), the address validator of
  \<open>utils/utils\<close> with its arguments (address, asset symbol, network name), \<open>base58.encode\<close>
  and the hexadecimal rendering of a buffer.\<close>

record deps =
  hash160 :: "bytes \<Rightarrow> bytes"
  createAddressBuffer :: "bytes \<Rightarrow> bytes \<Rightarrow> bytes \<Rightarrow> bytes"
  base58encode :: "bytes \<Rightarrow> string"
  fromHex :: "string \<Rightarrow> bytes"
  fromBase64 :: "string \<Rightarrow> bytes"
  toURLBase64 :: "bytes \<Rightarrow> string"
  toHexString :: "bytes \<Rightarrow> string"
  utilsValidateAddress :: "string \<Rightarrow> string \<Rightarrow> string \<Rightarrow> bool"

subsection \<open>Construction\<close>

text \<open>\<open>withAPI(api, { priority = 0 })\<close> hands the provider and the priority to the
  combined API, which keeps them in registration order.\<close>

definition withAPI :: "provider \<Rightarrow> int \<Rightarrow> BitcoinBaseChain \<Rightarrow> BitcoinBaseChain" where
  "withAPI p priority this = this\<lparr>api := api this @ [(p, priority)]\<rparr>"

text \<open>Reading a property of an object: the value the object holds under the key
  itself, or else what it inherits from \<open>Object.prototype\<close> under one of that
  prototype's names (a function, or the prototype itself for \<open>__proto__\<close>: never a
  configuration, always truthy), or else \<open>undefined\<close>.\<close>

datatype 'a property = Undefined | Own 'a | Inherited

definition objectPrototypeKeys :: "string list" where
  "objectPrototypeKeys =
     [''constructor'', ''__defineGetter__'', ''__defineSetter__'', ''hasOwnProperty'',
      ''__lookupGetter__'', ''__lookupSetter__'', ''isPrototypeOf'', ''propertyIsEnumerable'',
      ''toString'', ''valueOf'', ''__proto__'', ''toLocaleString'']"

definition getProperty :: "(string \<rightharpoonup> 'a) \<Rightarrow> string \<Rightarrow> 'a property" where
  "getProperty obj key =
     (case obj key of
        Some v \<Rightarrow> Own v
      | None \<Rightarrow> if key \<in> set objectPrototypeKeys then Inherited else Undefined)"

text \<open>The field initialiser \<open>public configMap: BitcoinNetworkConfigMap = {}\<close>. It runs
  before the constructor body, and the initialisers of a subclass run only after the
  constructor has returned: this empty object is what the body reads as
  \<open>this.configMap\<close>.\<close>

definition configMapInitialiser :: "string \<rightharpoonup> BitcoinNetworkConfig" where
  "configMapInitialiser = Map.empty"

text \<open>The constructor. A value inherited from \<open>Object.prototype\<close> passes the test
  \<open>!networkConfig\<close> and becomes \<open>this.network\<close>; it has no \<open>providers\<close>, and the loop
  over them throws.\<close>

definition new_BitcoinBaseChain :: "BitcoinNetworkInput \<Rightarrow> error + BitcoinBaseChain" where
  "new_BitcoinBaseChain input =
     (let networkConfig = (case input of
                             Config c \<Rightarrow> Own c
                           | Selector s \<Rightarrow> getProperty configMapInitialiser s
                           | Unrecognised key \<Rightarrow> getProperty configMapInitialiser key)
      in case networkConfig of
           Undefined \<Rightarrow> (case input of
                           Selector s \<Rightarrow> Inl (UnknownNetwork s)
                         | _ \<Rightarrow> Inl InvalidNetworkConfig)
         | Inherited \<Rightarrow> Inl ProvidersNotIterable
         | Own c \<Rightarrow>
             Inr (fold (\<lambda>p. withAPI p 0) (providers c)
                    \<lparr>chain = selector c, configMap = configMapInitialiser, network = c,
                     api = []\<rparr>))"

subsection \<open>Assets\<close>

definition assetIsNative :: "BitcoinBaseChain \<Rightarrow> string \<Rightarrow> bool" where
  "assetIsNative this asset \<longleftrightarrow> asset = symbol (nativeAsset (network this))"

definition assetIsSupported :: "BitcoinBaseChain \<Rightarrow> string \<Rightarrow> bool" where
  "assetIsSupported = assetIsNative"

definition assertAssetIsSupported :: "BitcoinBaseChain \<Rightarrow> string \<Rightarrow> error + unit" where
  "assertAssetIsSupported this asset =
     (if \<not> assetIsNative this asset then Inl (AssetNotSupported asset (chain this))
      else Inr ())"

definition isDepositAsset :: "BitcoinBaseChain \<Rightarrow> string \<Rightarrow> error + bool" where
  "isDepositAsset this asset =
     (case assertAssetIsSupported this asset of
        Inl e \<Rightarrow> Inl e
      | Inr _ \<Rightarrow> Inr True)"

definition assetDecimals :: "BitcoinBaseChain \<Rightarrow> string \<Rightarrow> error + nat" where
  "assetDecimals this asset =
     (case assertAssetIsSupported this asset of
        Inl e \<Rightarrow> Inl e
      | Inr _ \<Rightarrow> Inr 8)"

definition getOutputPayload ::
  "BitcoinBaseChain \<Rightarrow> string \<Rightarrow> BitcoinReleasePayload \<Rightarrow> error + string \<times> bytes" where
  "getOutputPayload this asset toPayload =
     (case assertAssetIsSupported this asset of
        Inl e \<Rightarrow> Inl e
      | Inr _ \<Rightarrow> Inr (address toPayload, []))"

subsection \<open>Addresses and balances\<close>

definition validateAddress :: "deps \<Rightarrow> BitcoinBaseChain \<Rightarrow> string \<Rightarrow> bool" where
  "validateAddress d this addr =
     utilsValidateAddress d addr (symbol (nativeAsset (network this)))
       (if isTestnet (network this) then ''prod'' else ''testnet'')"

definition getBalance :: "deps \<Rightarrow> BitcoinBaseChain \<Rightarrow> string \<Rightarrow> string \<Rightarrow> error + int" where
  "getBalance d this asset addr =
     (case assertAssetIsSupported this asset of
        Inl e \<Rightarrow> Inl e
      | Inr _ \<Rightarrow>
          if \<not> validateAddress d this addr then Inl (InvalidAddress addr)
          else Inr 0)"

definition createGatewayAddress ::
  "deps \<Rightarrow> BitcoinBaseChain \<Rightarrow> string \<Rightarrow> FromPayload \<Rightarrow> bytes \<Rightarrow> bytes \<Rightarrow> error + string" where
  "createGatewayAddress d this asset fromPayload shardPublicKey gHash =
     (if payloadChain fromPayload \<noteq> chain this
      then Inl (InvalidPayload (payloadChain fromPayload) (chain this))
      else case assertAssetIsSupported this asset of
             Inl e \<Rightarrow> Inl e
           | Inr _ \<Rightarrow>
               Inr (base58encode d
                      (createAddressBuffer d (hash160 d shardPublicKey) gHash
                         (p2shPrefix (network this)))))"

subsection \<open>Confirmations\<close>

text \<open>What the combined API answers while one call of \<open>transactionConfidence\<close> runs:
  \<open>fetchUTXO\<close> by transaction hash and output index, and \<open>fetchHeight\<close>. \<open>Inl\<close> is a
  rejected promise with its message.\<close>

record ApiReplies =
  fetchUTXO :: "string \<Rightarrow> string \<Rightarrow> string + UTXO"
  fetchHeight :: "string + int"

definition transactionHash :: "deps \<Rightarrow> ChainTransaction \<Rightarrow> string" where
  "transactionHash d transaction = toHexString d (rev (fromBase64 d (txid transaction)))"

text \<open>The provider reports \<open>height\<close> as a decimal string or \<open>null\<close>, and the class
  does exact \<open>BigNumber\<close> arithmetic on it: the model keeps the integer the string
  denotes, so \<open>!height\<close> holds for \<open>None\<close> only. \<open>fetchHeight\<close> is awaited only in the
  branch of a mined output.\<close>

definition transactionConfidence ::
  "deps \<Rightarrow> ApiReplies \<Rightarrow> ChainTransaction \<Rightarrow> error + int" where
  "transactionConfidence d replies transaction =
     (case fetchUTXO replies (transactionHash d transaction) (txindex transaction) of
        Inl e \<Rightarrow> Inl (ProviderError e)
      | Inr utxo \<Rightarrow>
          (case height utxo of
             None \<Rightarrow> Inr 0
           | Some h \<Rightarrow>
               (case fetchHeight replies of
                  Inl e \<Rightarrow> Inl (ProviderError e)
                | Inr latestHeight \<Rightarrow> Inr (latestHeight - h + 1))))"

subsection \<open>Watching for deposits\<close>

text \<open>One watch session talks to three parties: the caller's \<open>listenerCancelled\<close>
  predicate, the caller's \<open>onDeposit\<close> handler and the combined API. The session is
  modelled by the answers it receives and the calls it makes. The answers are indexed
  by the number of earlier calls of the same function in the session; the calls are
  the trace, in program order.\<close>

record WatchEnv =
  listenerCancelled :: "nat \<Rightarrow> bool"
  fetchTXs :: "string \<Rightarrow> nat \<Rightarrow> string + UTXO list"
  fetchUTXOs :: "string \<Rightarrow> nat \<Rightarrow> string + UTXO list"

text \<open>\<open>Sleep n\<close> is a sleep of \<open>n\<close> seconds.\<close>

datatype event =
    CallListenerCancelled bool
  | CallFetchTXs string
  | CallFetchUTXOs string
  | CallOnDeposit ChainTransaction
  | ConsoleError string
  | Sleep nat

text \<open>How a session stands after the iterations it was given: it threw, it returned,
  or it is still in the loop.\<close>

datatype outcome = Threw error | Returned | Running

text \<open>Modelled from the spec: \<open>tryNTimes\<close> of the utilities package, the bounded retry
  helper. The call is attempted until it succeeds, at most \<open>retries\<close> times; the result
  is the first success or the failures of all attempts, together with the number of
  attempts made.\<close>

primrec attempts :: "(nat \<Rightarrow> 'e + 'a) \<Rightarrow> nat \<Rightarrow> nat \<Rightarrow> ('e list + 'a) \<times> nat" where
  "attempts fnCall i 0 = (Inl [], 0)"
| "attempts fnCall i (Suc left) =
     (case fnCall i of
        Inr v \<Rightarrow> (Inr v, 1)
      | Inl e \<Rightarrow>
          (case attempts fnCall (Suc i) left of
             (Inl es, n) \<Rightarrow> (Inl (e # es), Suc n)
           | (Inr v, n) \<Rightarrow> (Inr v, Suc n)))"

definition tryNTimes :: "(nat \<Rightarrow> 'e + 'a) \<Rightarrow> nat \<Rightarrow> ('e list + 'a) \<times> nat" where
  "tryNTimes fnCall retries = attempts fnCall 0 retries"

text \<open>The object handed to \<open>onDeposit\<close> for one provider entry.\<close>

definition toDeposit :: "deps \<Rightarrow> UTXO \<Rightarrow> ChainTransaction" where
  "toDeposit d tx =
     \<lparr>txid = toURLBase64 d (rev (fromHex d (utxoTxid tx))),
      txindex = utxoTxindex tx,
      amount = utxoAmount tx\<rparr>"

text \<open>The first \<open>try\<close> block: \<open>fetchTXs\<close> under \<open>tryNTimes\<close> with 2 attempts, then the
  handler on every entry; a failure of both attempts is dropped.\<close>

definition discoverTXs :: "deps \<Rightarrow> WatchEnv \<Rightarrow> string \<Rightarrow> event list" where
  "discoverTXs d env addr =
     (case tryNTimes (fetchTXs env addr) 2 of
        (r, n) \<Rightarrow>
          replicate n (CallFetchTXs addr) @
          (case r of
             Inr txs \<Rightarrow> map (\<lambda>tx. CallOnDeposit (toDeposit d tx)) txs
           | Inl _ \<Rightarrow> []))"

text \<open>Iteration \<open>i\<close> of the \<open>while\<close> loop when the cancellation test at its top
  answers false: the test, the query, the handler on every entry or the logged error,
  the sleep.\<close>

definition pollIteration :: "deps \<Rightarrow> WatchEnv \<Rightarrow> string \<Rightarrow> nat \<Rightarrow> event list" where
  "pollIteration d env addr i =
     CallListenerCancelled False #
     CallFetchUTXOs addr #
     (case fetchUTXOs env addr i of
        Inr utxos \<Rightarrow> map (\<lambda>tx. CallOnDeposit (toDeposit d tx)) utxos
      | Inl e \<Rightarrow> [ConsoleError e]) @
     [Sleep 15]"

text \<open>The \<open>while (true)\<close> loop from iteration \<open>i\<close> on, observed for at most \<open>fuel\<close>
  iterations.\<close>

fun pollLoop :: "deps \<Rightarrow> WatchEnv \<Rightarrow> string \<Rightarrow> nat \<Rightarrow> nat \<Rightarrow> outcome \<times> event list" where
  "pollLoop d env addr i 0 = (Running, [])"
| "pollLoop d env addr i (Suc fuel) =
     (if listenerCancelled env i then (Returned, [CallListenerCancelled True])
      else case pollLoop d env addr (Suc i) fuel of
             (out, evs) \<Rightarrow> (out, pollIteration d env addr i @ evs))"

definition watchForDeposits ::
  "deps \<Rightarrow> BitcoinBaseChain \<Rightarrow> WatchEnv \<Rightarrow> string \<Rightarrow> FromPayload \<Rightarrow> string \<Rightarrow> nat
     \<Rightarrow> outcome \<times> event list" where
  "watchForDeposits d this env asset fromPayload addr fuel =
     (if payloadChain fromPayload \<noteq> chain this
      then (Threw (InvalidPayload (payloadChain fromPayload) (chain this)), [])
      else case assertAssetIsSupported this asset of
             Inl e \<Rightarrow> (Threw e, [])
           | Inr _ \<Rightarrow>
               (case pollLoop d env addr 0 fuel of
                  (out, evs) \<Rightarrow> (out, discoverTXs d env addr @ evs)))"

text \<open>Observations on a trace: the arguments of the handler calls in order, the
  (txid, index) key of a reported transaction, the number of attempts of the
  unspent-output query, and the messages logged with \<open>console.error\<close>.\<close>

fun handlerCalls :: "event list \<Rightarrow> ChainTransaction list" where
  "handlerCalls [] = []"
| "handlerCalls (CallOnDeposit t # evs) = t # handlerCalls evs"
| "handlerCalls (_ # evs) = handlerCalls evs"

definition depositKey :: "ChainTransaction \<Rightarrow> string \<times> string" where
  "depositKey t = (txid t, txindex t)"

definition fetchUTXOsAttempts :: "string \<Rightarrow> event list \<Rightarrow> nat" where
  "fetchUTXOsAttempts addr evs = length (filter (\<lambda>ev. ev = CallFetchUTXOs addr) evs)"

fun consoleErrors :: "event list \<Rightarrow> string list" where
  "consoleErrors [] = []"
| "consoleErrors (ConsoleError e # evs) = e # consoleErrors evs"
| "consoleErrors (_ # evs) = consoleErrors evs"

text \<open>The entries of a provider answer; none when the call failed.\<close>

definition entries :: "'e + 'a list \<Rightarrow> 'a list" where
  "entries r = (case r of Inr xs \<Rightarrow> xs | Inl _ \<Rightarrow> [])"

subsection \<open>Unit conversion\<close>

text \<open>A \<open>BigNumber\<close> is the exact decimal it holds, a rational here. In the library's
  default configuration \<open>times\<close> is exact, \<open>decimalPlaces\<close> and \<open>dividedBy\<close> round
  half-way cases away from zero (\<open>ROUND_HALF_UP\<close>), and \<open>dividedBy\<close> keeps 20 decimal
  places (\<open>DECIMAL_PLACES\<close>). \<open>toFixed()\<close> writes the value out in full, so the strings
  that \<open>toSats\<close> and \<open>fromSats\<close> return are identified with the values they denote.\<close>

definition roundHalfUp :: "rat \<Rightarrow> int" where
  "roundHalfUp x = (if 0 \<le> x then \<lfloor>x + 1 / 2\<rfloor> else - \<lfloor>- x + 1 / 2\<rfloor>)"

definition decimalPlaces :: "nat \<Rightarrow> rat \<Rightarrow> rat" where
  "decimalPlaces dp x = of_int (roundHalfUp (x * 10 ^ dp)) / 10 ^ dp"

definition dividedBy :: "rat \<Rightarrow> rat \<Rightarrow> rat" where
  "dividedBy x y = decimalPlaces 20 (x / y)"

definition toSats :: "rat \<Rightarrow> rat" where
  "toSats v = decimalPlaces 0 (v * 10 ^ 8)"

definition fromSats :: "rat \<Rightarrow> rat" where
  "fromSats v = dividedBy v (10 ^ 8)"

subsection \<open>Concrete instances\<close>

text \<open>Two network configurations, the configuration map a concrete chain declares for
  them, and the instance the constructor builds from the configuration object of the
  test network.\<close>

definition btcTestnet :: BitcoinNetworkConfig where
  "btcTestnet =
     \<lparr>selector = ''Bitcoin'', nativeAsset = \<lparr>symbol = ''BTC'', decimals = 8\<rparr>,
      isTestnet = True, p2shPrefix = [0xC4], providers = [BitcoinAPI ''blockstream'']\<rparr>"

definition btcMainnet :: BitcoinNetworkConfig where
  "btcMainnet =
     \<lparr>selector = ''Bitcoin'', nativeAsset = \<lparr>symbol = ''BTC'', decimals = 8\<rparr>,
      isTestnet = False, p2shPrefix = [0x05], providers = [BitcoinAPI ''blockstream'']\<rparr>"

definition sampleConfigMap :: "string \<rightharpoonup> BitcoinNetworkConfig" where
  "sampleConfigMap = [''mainnet'' \<mapsto> btcMainnet, ''testnet'' \<mapsto> btcTestnet]"

definition testnetChain :: BitcoinBaseChain where
  "testnetChain =
     \<lparr>chain = ''Bitcoin'', configMap = Map.empty, network = btcTestnet,
      api = [(BitcoinAPI ''blockstream'', 0)]\<rparr>"

text \<open>Stand-ins for the imported functions, to run the methods on concrete inputs. The
  address validator tells the two networks apart by the leading character: \<open>1\<close>, \<open>3\<close>
  or \<open>b\<close> on the main network (\<open>prod\<close>), \<open>m\<close>, \<open>n\<close>, \<open>2\<close> or \<open>t\<close> on the test
  network.\<close>

definition standIn :: deps where
  "standIn =
     \<lparr>hash160 = take 20,
      createAddressBuffer = (\<lambda>pubKeyHash gHash prefix. prefix @ gHash @ pubKeyHash),
      base58encode = map (\<lambda>b. char_of (unat b)),
      fromHex = map (\<lambda>c. of_nat (of_char c)),
      fromBase64 = map (\<lambda>c. of_nat (of_char c)),
      toURLBase64 = map (\<lambda>b. char_of (unat b)),
      toHexString = map (\<lambda>b. char_of (unat b)),
      utilsValidateAddress =
        (\<lambda>addr asset net. asset = ''BTC'' \<and>
           (case addr of
              [] \<Rightarrow> False
            | c # _ \<Rightarrow> if net = ''prod'' then c \<in> set ''13b'' else c \<in> set ''mn2t''))\<rparr>"

definition depositAddress :: string where
  "depositAddress = ''2N5muMepJizJE1gR7FbHJU6CD18V3BpNF9p''"

definition sampleUTXO :: UTXO where
  "sampleUTXO = \<lparr>utxoTxid = ''ab'', utxoTxindex = ''0'', utxoAmount = ''100000'', height = None\<rparr>"

definition sampleTransaction :: ChainTransaction where
  "sampleTransaction = \<lparr>txid = ''ba'', txindex = ''0'', amount = ''100000''\<rparr>"

text \<open>A session in which every poll finds the same unspent output and the caller cancels
  before the third iteration, and one in which every provider call fails and the
  caller cancels before the second.\<close>

definition repeatingEnv :: WatchEnv where
  "repeatingEnv =
     \<lparr>listenerCancelled = (\<lambda>i. 2 \<le> i),
      fetchTXs = (\<lambda>addr i. Inl ''unavailable''),
      fetchUTXOs = (\<lambda>addr i. Inr [sampleUTXO])\<rparr>"

definition failingEnv :: WatchEnv where
  "failingEnv =
     \<lparr>listenerCancelled = (\<lambda>i. 1 \<le> i),
      fetchTXs = (\<lambda>addr i. Inl ''timeout''),
      fetchUTXOs = (\<lambda>addr i. Inl ''timeout'')\<rparr>"

text \<open>A session in which the first attempt of each query fails and the later ones find
  the same output, cancelled before the third iteration.\<close>

definition flakyEnv :: WatchEnv where
  "flakyEnv =
     \<lparr>listenerCancelled = (\<lambda>i. 2 \<le> i),
      fetchTXs = (\<lambda>addr i. if i = 0 then Inl ''timeout'' else Inr [sampleUTXO]),
      fetchUTXOs = (\<lambda>addr i. if i = 0 then Inl ''rate limited'' else Inr [sampleUTXO])\<rparr>"

text \<open>The answers of the API about an output mined at height 99, at chain height
  \<open>h\<close>, and about the same output before it is mined.\<close>

definition minedReplies :: "int \<Rightarrow> ApiReplies" where
  "minedReplies h =
     \<lparr>fetchUTXO = (\<lambda>hash index. Inr (sampleUTXO\<lparr>height := Some 99\<rparr>)),
      fetchHeight = Inr h\<rparr>"

definition unminedReplies :: ApiReplies where
  "unminedReplies =
     \<lparr>fetchUTXO = (\<lambda>hash index. Inr sampleUTXO),
      fetchHeight = Inl ''timeout''\<rparr>"

section \<open>Properties\<close>

subsection \<open>Auxiliary facts: construction and addresses\<close>

lemma withAPI_fields [simp]:
  "chain (withAPI p priority this) = chain this"
  "network (withAPI p priority this) = network this"
  by (simp_all add: withAPI_def)

lemma fold_withAPI_fields [simp]:
  "chain (fold (\<lambda>(p, priority). withAPI p priority) ps this) = chain this"
  "network (fold (\<lambda>(p, priority). withAPI p priority) ps this) = network this"
  by (induction ps arbitrary: this) (simp_all split: prod.splits)

lemma fold_withAPI0_fields [simp]:
  "chain (fold (\<lambda>p. withAPI p 0) ps this) = chain this"
  "network (fold (\<lambda>p. withAPI p 0) ps this) = network this"
  "configMap (fold (\<lambda>p. withAPI p 0) ps this) = configMap this"
  by (induction ps arbitrary: this) (simp_all add: withAPI_def)

lemma new_BitcoinBaseChain_Inr:
  "new_BitcoinBaseChain input = Inr this \<Longrightarrow>
   chain this = selector (network this) \<and> input = Config (network this)"
  by (auto simp: new_BitcoinBaseChain_def getProperty_def configMapInitialiser_def
      split: BitcoinNetworkInput.splits if_splits)

lemma new_testnetChain: "new_BitcoinBaseChain (Config btcTestnet) = Inr testnetChain"
  by (simp add: new_BitcoinBaseChain_def configMapInitialiser_def testnetChain_def
      btcTestnet_def withAPI_def)

lemma createGatewayAddress_reads:
  "network a = network b \<Longrightarrow> chain a = chain b \<Longrightarrow>
   createGatewayAddress d a asset fp pk gh = createGatewayAddress d b asset fp pk gh"
  by (simp add: createGatewayAddress_def assertAssetIsSupported_def assetIsNative_def)

lemma testnetChain_guards:
  "payloadChain \<lparr>payloadChain = ''Bitcoin''\<rparr> = chain testnetChain"
  "assetIsNative testnetChain ''BTC''"
  by (simp_all add: testnetChain_def btcTestnet_def assetIsNative_def)

subsection \<open>Auxiliary facts: rounding\<close>

lemma floor_half: "\<lfloor>(of_int k :: rat) + 1 / 2\<rfloor> = k"
  by linarith

lemma roundHalfUp_of_int: "roundHalfUp (of_int k) = k"
  unfolding roundHalfUp_def using floor_half [of k] floor_half [of "- k"] by simp

lemma decimalPlaces_exact:
  assumes "x * 10 ^ dp = of_int k"
  shows "decimalPlaces dp x = x"
proof -
  have "decimalPlaces dp x = of_int k / 10 ^ dp"
    by (simp add: decimalPlaces_def assms roundHalfUp_of_int)
  also have "\<dots> = x"
    using assms by (simp add: field_simps)
  finally show ?thesis .
qed

subsection \<open>Auxiliary facts: the polling loop\<close>

text \<open>While the predicate answers false, the loop runs one iteration after the other.\<close>

lemma pollLoop_unfold:
  "\<forall>j<n. \<not> listenerCancelled env (i + j) \<Longrightarrow>
   pollLoop d env addr i (n + f) =
     (case pollLoop d env addr (i + n) f of
        (out, evs) \<Rightarrow> (out, concat (map (pollIteration d env addr) [i..<i + n]) @ evs))"
proof (induction n arbitrary: i)
  case 0
  then show ?case by (simp split: prod.splits)
next
  case (Suc n)
  have first: "\<not> listenerCancelled env i"
    using Suc.prems by (metis add.right_neutral zero_less_Suc)
  have rest: "\<forall>j<n. \<not> listenerCancelled env (Suc i + j)"
    using Suc.prems by (metis Suc_less_eq add_Suc_shift)
  have range: "[i..<i + Suc n] = i # [Suc i..<Suc i + n]"
    by (simp add: upt_conv_Cons)
  have "pollLoop d env addr i (Suc n + f) =
          (case pollLoop d env addr (Suc i) (n + f) of
             (out, evs) \<Rightarrow> (out, pollIteration d env addr i @ evs))"
    using first by simp
  also have "\<dots> =
          (case pollLoop d env addr (i + Suc n) f of
             (out, evs) \<Rightarrow> (out, concat (map (pollIteration d env addr) [i..<i + Suc n]) @ evs))"
    unfolding Suc.IH [OF rest] range by (simp split: prod.splits)
  finally show ?case .
qed

lemma pollLoop_no_throw: "fst (pollLoop d env addr i fuel) \<noteq> Threw e"
proof (induction fuel arbitrary: i)
  case 0
  then show ?case by simp
next
  case (Suc fuel)
  from Suc.IH [of "Suc i"] show ?case
    by (cases "pollLoop d env addr (Suc i) fuel") simp
qed

lemma pollLoop_returned_cancelled:
  "fst (pollLoop d env addr i fuel) = Returned \<Longrightarrow> \<exists>n\<ge>i. listenerCancelled env n"
proof (induction fuel arbitrary: i)
  case 0
  then show ?case by simp
next
  case (Suc fuel)
  show ?case
  proof (cases "listenerCancelled env i")
    case True
    then show ?thesis by auto
  next
    case False
    with Suc.prems have "fst (pollLoop d env addr (Suc i) fuel) = Returned"
      by (simp split: prod.splits)
    from Suc.IH [OF this] obtain n where "Suc i \<le> n" "listenerCancelled env n"
      by blast
    then show ?thesis by (intro exI [of _ n]) simp
  qed
qed

lemma pollLoop_running:
  "\<forall>j<fuel. \<not> listenerCancelled env j \<Longrightarrow>
   pollLoop d env addr 0 fuel = (Running, concat (map (pollIteration d env addr) [0..<fuel]))"
  using pollLoop_unfold [of fuel env 0 d addr 0] by simp

lemma pollLoop_returned:
  assumes "\<forall>j<n. \<not> listenerCancelled env j" and "listenerCancelled env n" and "n < fuel"
  shows "pollLoop d env addr 0 fuel =
     (Returned, concat (map (pollIteration d env addr) [0..<n]) @ [CallListenerCancelled True])"
proof -
  from assms(3) obtain f where fuel: "fuel = n + Suc f"
    using less_iff_Suc_add by auto
  show ?thesis
    unfolding fuel using pollLoop_unfold [of n env 0 d addr "Suc f"] assms(1,2) by simp
qed

lemma watchForDeposits_loop:
  "payloadChain fromPayload = chain this \<Longrightarrow> assetIsNative this asset \<Longrightarrow>
   watchForDeposits d this env asset fromPayload addr fuel =
     (fst (pollLoop d env addr 0 fuel), discoverTXs d env addr @ snd (pollLoop d env addr 0 fuel))"
  by (simp add: watchForDeposits_def assertAssetIsSupported_def split: prod.splits)

subsection \<open>Auxiliary facts: observations on traces\<close>

lemma handlerCalls_append: "handlerCalls (xs @ ys) = handlerCalls xs @ handlerCalls ys"
  by (induction xs rule: handlerCalls.induct) simp_all

lemma handlerCalls_deposits: "handlerCalls (map (\<lambda>tx. CallOnDeposit (f tx)) txs) = map f txs"
  by (induction txs) simp_all

lemma handlerCalls_fetches: "handlerCalls (replicate n (CallFetchTXs addr)) = []"
  by (induction n) simp_all

lemma handlerCalls_discoverTXs:
  "handlerCalls (discoverTXs d env addr) =
     map (toDeposit d) (entries (fst (tryNTimes (fetchTXs env addr) 2)))"
  by (simp add: discoverTXs_def entries_def handlerCalls_append handlerCalls_deposits
      handlerCalls_fetches split: prod.splits sum.splits)

lemma handlerCalls_iteration:
  "handlerCalls (pollIteration d env addr i) = map (toDeposit d) (entries (fetchUTXOs env addr i))"
  by (simp add: pollIteration_def entries_def handlerCalls_append handlerCalls_deposits
      split: sum.splits)

lemma handlerCalls_iterations:
  "handlerCalls (concat (map (pollIteration d env addr) is)) =
     map (toDeposit d) (concat (map (\<lambda>i. entries (fetchUTXOs env addr i)) is))"
  by (induction "is") (simp_all add: handlerCalls_append handlerCalls_iteration)

lemma fetchUTXOsAttempts_append:
  "fetchUTXOsAttempts addr (xs @ ys) = fetchUTXOsAttempts addr xs + fetchUTXOsAttempts addr ys"
  by (simp add: fetchUTXOsAttempts_def)

lemma fetchUTXOsAttempts_discoverTXs: "fetchUTXOsAttempts addr (discoverTXs d env addr') = 0"
  by (simp add: fetchUTXOsAttempts_def discoverTXs_def split: prod.splits sum.splits)

lemma fetchUTXOsAttempts_iteration: "fetchUTXOsAttempts addr (pollIteration d env addr i) = 1"
  by (simp add: fetchUTXOsAttempts_def pollIteration_def split: sum.splits)

lemma fetchUTXOsAttempts_iterations:
  "fetchUTXOsAttempts addr (concat (map (pollIteration d env addr) is)) = length is"
proof (induction "is")
  case Nil
  then show ?case by (simp add: fetchUTXOsAttempts_def)
next
  case (Cons i "is")
  then show ?case by (simp add: fetchUTXOsAttempts_append fetchUTXOsAttempts_iteration)
qed

lemma consoleErrors_append: "consoleErrors (xs @ ys) = consoleErrors xs @ consoleErrors ys"
  by (induction xs rule: consoleErrors.induct) simp_all

lemma consoleErrors_fetches: "consoleErrors (replicate n (CallFetchTXs addr)) = []"
  by (induction n) simp_all

lemma consoleErrors_deposits: "consoleErrors (map (\<lambda>tx. CallOnDeposit (f tx)) txs) = []"
  by (induction txs) simp_all

lemma consoleErrors_discoverTXs: "consoleErrors (discoverTXs d env addr) = []"
  by (simp add: discoverTXs_def consoleErrors_append consoleErrors_fetches
      consoleErrors_deposits split: prod.splits sum.splits)

lemma consoleErrors_iteration:
  "consoleErrors (pollIteration d env addr i) =
     (case fetchUTXOs env addr i of Inl e \<Rightarrow> [e] | Inr _ \<Rightarrow> [])"
  by (simp add: pollIteration_def consoleErrors_append consoleErrors_deposits split: sum.splits)

lemma consoleErrors_iterations:
  "consoleErrors (concat (map (pollIteration d env addr) is)) =
     concat (map (\<lambda>i. case fetchUTXOs env addr i of Inl e \<Rightarrow> [e] | Inr _ \<Rightarrow> []) is)"
  by (induction "is") (simp_all add: consoleErrors_append consoleErrors_iteration)

text \<open>Facts to run the concrete sessions.\<close>

lemma toDeposit_sample: "toDeposit standIn sampleUTXO = sampleTransaction"
  by code_simp

lemma first_two: "[0..<2] = [0, Suc 0]"
  by (simp add: numeral_2_eq_2 upt_conv_Cons)

lemma flakyEnv_open: "\<forall>i<2. \<not> listenerCancelled flakyEnv i"
  by (simp add: flakyEnv_def)

lemmas run_simps =
  discoverTXs_def tryNTimes_def pollIteration_def toDeposit_sample first_two
  numeral_2_eq_2 numeral_3_eq_3

subsection \<open>Gateway addresses\<close>

text \<open>C1. The gateway address is a function of the asset, the payload, the shard public
  key, the hash and the network configuration alone. Two instances constructed with the
  same network configuration, whatever configuration maps they are given afterwards and
  whatever providers are registered on them afterwards, in any order, answer a request
  with the same result: the same address string, or the same error.\<close>

theorem createGatewayAddress_deterministic:
  assumes "new_BitcoinBaseChain input1 = Inr a"
    and "new_BitcoinBaseChain input2 = Inr b"
    and "network a = network b"
  shows "createGatewayAddress d
           (fold (\<lambda>(p, priority). withAPI p priority) ps (a\<lparr>configMap := cmA\<rparr>))
           asset fromPayload shardPublicKey gHash =
         createGatewayAddress d
           (fold (\<lambda>(p, priority). withAPI p priority) qs (b\<lparr>configMap := cmB\<rparr>))
           asset fromPayload shardPublicKey gHash"
proof -
  have "chain a = chain b"
    using assms new_BitcoinBaseChain_Inr [of input1 a] new_BitcoinBaseChain_Inr [of input2 b]
    by simp
  with assms(3) show ?thesis
    by (intro createGatewayAddress_reads) simp_all
qed

theorem createGatewayAddress_deterministic_witness:
  "new_BitcoinBaseChain (Config btcTestnet) = Inr testnetChain \<and>
   createGatewayAddress standIn
     (fold (\<lambda>(p, priority). withAPI p priority) [(BitcoinAPI ''sochain'', 5)]
        (testnetChain\<lparr>configMap := sampleConfigMap\<rparr>))
     ''BTC'' \<lparr>payloadChain = ''Bitcoin''\<rparr> [2, 3] [7] =
   createGatewayAddress standIn
     (fold (\<lambda>(p, priority). withAPI p priority) [] (testnetChain\<lparr>configMap := Map.empty\<rparr>))
     ''BTC'' \<lparr>payloadChain = ''Bitcoin''\<rparr> [2, 3] [7]"
  using createGatewayAddress_deterministic
    [OF new_testnetChain new_testnetChain refl,
      where d = standIn and ps = "[(BitcoinAPI ''sochain'', 5)]" and cmA = sampleConfigMap
        and qs = "[]" and cmB = Map.empty and asset = "''BTC''"
        and fromPayload = "\<lparr>payloadChain = ''Bitcoin''\<rparr>"
        and shardPublicKey = "[2, 3]" and gHash = "[7]"]
    new_testnetChain
  by simp

subsection \<open>Deposits are reported once per entry\<close>

text \<open>C2, as the class has it. The watcher keeps no record of what it has reported: it
  calls the handler once for every entry of the discovery answer and of every
  successful poll, in the order of arrival. So the handler calls of a session that has
  run \<open>n\<close> iterations, and of one cancelled at its iteration \<open>n\<close>, are the entries
  of those answers, one call each; a (txid, index) pair is reported as often as the
  answers contain it.\<close>

theorem onDeposit_once_per_entry:
  assumes "payloadChain fromPayload = chain this" and "assetIsNative this asset"
    and "\<forall>i<n. \<not> listenerCancelled env i"
  shows "handlerCalls (snd (watchForDeposits d this env asset fromPayload addr n)) =
           map (toDeposit d)
             (entries (fst (tryNTimes (fetchTXs env addr) 2)) @
              concat (map (\<lambda>i. entries (fetchUTXOs env addr i)) [0..<n])) \<and>
         (\<forall>fuel. listenerCancelled env n \<and> n < fuel \<longrightarrow>
            handlerCalls (snd (watchForDeposits d this env asset fromPayload addr fuel)) =
              map (toDeposit d)
                (entries (fst (tryNTimes (fetchTXs env addr) 2)) @
                 concat (map (\<lambda>i. entries (fetchUTXOs env addr i)) [0..<n])))"
proof -
  note loop = watchForDeposits_loop [OF assms(1,2)]
  have "handlerCalls (snd (watchForDeposits d this env asset fromPayload addr n)) =
           map (toDeposit d)
             (entries (fst (tryNTimes (fetchTXs env addr) 2)) @
              concat (map (\<lambda>i. entries (fetchUTXOs env addr i)) [0..<n]))"
    using pollLoop_running [OF assms(3), of d addr]
    by (simp add: loop handlerCalls_append handlerCalls_discoverTXs handlerCalls_iterations)
  moreover have "handlerCalls (snd (watchForDeposits d this env asset fromPayload addr fuel)) =
           map (toDeposit d)
             (entries (fst (tryNTimes (fetchTXs env addr) 2)) @
              concat (map (\<lambda>i. entries (fetchUTXOs env addr i)) [0..<n]))"
    if "listenerCancelled env n" "n < fuel" for fuel
    using pollLoop_returned [OF assms(3) that, of d addr]
    by (simp add: loop handlerCalls_append handlerCalls_discoverTXs handlerCalls_iterations)
  ultimately show ?thesis by blast
qed

theorem onDeposit_once_per_entry_witness:
  "payloadChain \<lparr>payloadChain = ''Bitcoin''\<rparr> = chain testnetChain \<and>
   assetIsNative testnetChain ''BTC'' \<and>
   \<not> listenerCancelled flakyEnv 0 \<and> \<not> listenerCancelled flakyEnv 1 \<and> listenerCancelled flakyEnv 2 \<and>
   handlerCalls
     (snd (watchForDeposits standIn testnetChain flakyEnv ''BTC'' \<lparr>payloadChain = ''Bitcoin''\<rparr>
        depositAddress 2)) = [sampleTransaction, sampleTransaction] \<and>
   handlerCalls
     (snd (watchForDeposits standIn testnetChain flakyEnv ''BTC'' \<lparr>payloadChain = ''Bitcoin''\<rparr>
        depositAddress 7)) = [sampleTransaction, sampleTransaction]"
proof -
  note t = onDeposit_once_per_entry [OF testnetChain_guards flakyEnv_open,
      of standIn depositAddress]
  have c: "listenerCancelled flakyEnv 2 \<and> (2::nat) < 7"
    by (simp add: flakyEnv_def)
  have e: "map (toDeposit standIn)
          (entries (fst (tryNTimes (fetchTXs flakyEnv depositAddress) 2)) @
           concat (map (\<lambda>i. entries (fetchUTXOs flakyEnv depositAddress i))
                     [0..<2])) = [sampleTransaction, sampleTransaction]"
    by (simp add: run_simps entries_def flakyEnv_def)
  from t c e show ?thesis
    using testnetChain_guards by (simp add: flakyEnv_def)
qed

text \<open>The stronger reading, one call per distinct (txid, index) pair, does not hold:
  in a session whose two polls both find the same unspent output, the handler is called
  twice with it.\<close>

theorem onDeposit_deduplicated_counterexample:
  "fst (watchForDeposits standIn testnetChain repeatingEnv ''BTC'' \<lparr>payloadChain = ''Bitcoin''\<rparr>
        depositAddress 3) = Returned \<and>
   handlerCalls
     (snd (watchForDeposits standIn testnetChain repeatingEnv ''BTC'' \<lparr>payloadChain = ''Bitcoin''\<rparr>
        depositAddress 3)) = [sampleTransaction, sampleTransaction] \<and>
   \<not> distinct (map depositKey
     (handlerCalls
        (snd (watchForDeposits standIn testnetChain repeatingEnv ''BTC'' \<lparr>payloadChain = ''Bitcoin''\<rparr>
           depositAddress 3))))"
  by (simp add: watchForDeposits_loop [OF testnetChain_guards] run_simps repeatingEnv_def)

subsection \<open>Confirmations\<close>

text \<open>C3. For an output mined at \<open>includedHeight\<close> the confidence is
  \<open>currentHeight - includedHeight + 1\<close>; for an output seen but not mined it is 0; when
  the height lookup, or the lookup of the output, fails, the call fails with the
  provider's error and returns no number. With heights 100, 100, 101, 103 and an output
  mined at 99, successive calls give 2, 2, 3, 5.\<close>

theorem transactionConfidence_depth:
  "(\<forall>utxo includedHeight currentHeight.
      fetchUTXO replies (transactionHash d tx) (txindex tx) = Inr utxo \<and>
      height utxo = Some includedHeight \<and> fetchHeight replies = Inr currentHeight \<longrightarrow>
      transactionConfidence d replies tx = Inr (currentHeight - includedHeight + 1)) \<and>
   (\<forall>utxo.
      fetchUTXO replies (transactionHash d tx) (txindex tx) = Inr utxo \<and> height utxo = None \<longrightarrow>
      transactionConfidence d replies tx = Inr 0) \<and>
   (\<forall>utxo includedHeight e.
      fetchUTXO replies (transactionHash d tx) (txindex tx) = Inr utxo \<and>
      height utxo = Some includedHeight \<and> fetchHeight replies = Inl e \<longrightarrow>
      transactionConfidence d replies tx = Inl (ProviderError e)) \<and>
   (\<forall>e.
      fetchUTXO replies (transactionHash d tx) (txindex tx) = Inl e \<longrightarrow>
      transactionConfidence d replies tx = Inl (ProviderError e)) \<and>
   (\<forall>utxo.
      fetchUTXO replies (transactionHash d tx) (txindex tx) = Inr utxo \<and> height utxo = Some 99 \<longrightarrow>
      map (\<lambda>h. transactionConfidence d (replies\<lparr>fetchHeight := Inr h\<rparr>) tx) [100, 100, 101, 103] =
      [Inr 2, Inr 2, Inr 3, Inr 5])"
  by (simp add: transactionConfidence_def)

theorem transactionConfidence_depth_witness:
  "map (\<lambda>h. transactionConfidence standIn (minedReplies h) sampleTransaction) [100, 100, 101, 103] =
     [Inr 2, Inr 2, Inr 3, Inr 5] \<and>
   transactionConfidence standIn (minedReplies 105) sampleTransaction = Inr 7 \<and>
   transactionConfidence standIn unminedReplies sampleTransaction = Inr 0 \<and>
   transactionConfidence standIn ((minedReplies 0)\<lparr>fetchHeight := Inl ''timeout''\<rparr>) sampleTransaction =
     Inl (ProviderError ''timeout'') \<and>
   transactionConfidence standIn (unminedReplies\<lparr>fetchUTXO := \<lambda>hash index. Inl ''not found''\<rparr>)
     sampleTransaction = Inl (ProviderError ''not found'')"
  using transactionConfidence_depth [of "minedReplies 100" standIn sampleTransaction]
    transactionConfidence_depth [of "minedReplies 105" standIn sampleTransaction]
    transactionConfidence_depth [of unminedReplies standIn sampleTransaction]
    transactionConfidence_depth
      [of "(minedReplies 0)\<lparr>fetchHeight := Inl ''timeout''\<rparr>" standIn sampleTransaction]
    transactionConfidence_depth
      [of "unminedReplies\<lparr>fetchUTXO := \<lambda>hash index. Inl ''not found''\<rparr>" standIn sampleTransaction]
  by (simp add: minedReplies_def unminedReplies_def sampleUTXO_def)

subsection \<open>Address validation\<close>

text \<open>C4. The method hands the validator the network name \<open>prod\<close> when the
  configuration is a test network, and \<open>testnet\<close> when it is not. On the test-network
  instance the answer for any address is therefore the validator's answer for the main
  network: with a validator that tells the networks apart, a main-network address is
  accepted and a test-network address is rejected.\<close>

theorem validateAddress_testnet_checks_prod:
  "validateAddress d testnetChain addr = utilsValidateAddress d addr ''BTC'' ''prod'' \<and>
   validateAddress standIn testnetChain ''1A1zP1eP5QGefi2DMPTfTL5SLmv7DivfNa'' \<and>
   \<not> validateAddress standIn testnetChain ''miMi2VET41YV1j6SDNTeZoPBbmH8B4nEx6''"
  by (simp add: validateAddress_def standIn_def testnetChain_def btcTestnet_def)

subsection \<open>The asset guard\<close>

text \<open>C5, as the class has it. For an asset other than the native symbol, each of the six
  methods fails without a result and, for the watcher, without a single call to the
  API or the handler. The error is the unsupported-asset error, except that
  \<open>watchForDeposits\<close> and \<open>createGatewayAddress\<close> test the payload's chain first and
  fail with the invalid-payload error when it is not the instance's chain.\<close>

theorem unsupported_asset_rejected:
  assumes "asset \<noteq> symbol (nativeAsset (network this))"
  shows "getOutputPayload this asset toPayload = Inl (AssetNotSupported asset (chain this)) \<and>
         getBalance d this asset addr = Inl (AssetNotSupported asset (chain this)) \<and>
         isDepositAsset this asset = Inl (AssetNotSupported asset (chain this)) \<and>
         assetDecimals this asset = Inl (AssetNotSupported asset (chain this)) \<and>
         watchForDeposits d this env asset fromPayload addr fuel =
           (Threw (if payloadChain fromPayload \<noteq> chain this
                   then InvalidPayload (payloadChain fromPayload) (chain this)
                   else AssetNotSupported asset (chain this)), []) \<and>
         createGatewayAddress d this asset fromPayload shardPublicKey gHash =
           Inl (if payloadChain fromPayload \<noteq> chain this
                then InvalidPayload (payloadChain fromPayload) (chain this)
                else AssetNotSupported asset (chain this))"
  using assms
  by (simp add: getOutputPayload_def getBalance_def isDepositAsset_def assetDecimals_def
      watchForDeposits_def createGatewayAddress_def assertAssetIsSupported_def assetIsNative_def)

theorem unsupported_asset_rejected_witness:
  "''ETH'' \<noteq> symbol (nativeAsset (network testnetChain)) \<and>
   getOutputPayload testnetChain ''ETH'' \<lparr>address = ''miMi2VET41YV1j6SDNTeZoPBbmH8B4nEx6''\<rparr> =
     Inl (AssetNotSupported ''ETH'' ''Bitcoin'') \<and>
   getBalance standIn testnetChain ''ETH'' depositAddress =
     Inl (AssetNotSupported ''ETH'' ''Bitcoin'') \<and>
   isDepositAsset testnetChain ''ETH'' = Inl (AssetNotSupported ''ETH'' ''Bitcoin'') \<and>
   assetDecimals testnetChain ''ETH'' = Inl (AssetNotSupported ''ETH'' ''Bitcoin'') \<and>
   watchForDeposits standIn testnetChain repeatingEnv ''ETH'' \<lparr>payloadChain = ''Bitcoin''\<rparr>
     depositAddress 5 = (Threw (AssetNotSupported ''ETH'' ''Bitcoin''), []) \<and>
   createGatewayAddress standIn testnetChain ''ETH'' \<lparr>payloadChain = ''Bitcoin''\<rparr> [2, 3] [7] =
     Inl (AssetNotSupported ''ETH'' ''Bitcoin'')"
proof -
  have h: "''ETH'' \<noteq> symbol (nativeAsset (network testnetChain))"
    by (simp add: testnetChain_def btcTestnet_def)
  have c: "chain testnetChain = ''Bitcoin''"
    by (simp add: testnetChain_def)
  show ?thesis
    using h unsupported_asset_rejected [OF h,
        where toPayload = "\<lparr>address = ''miMi2VET41YV1j6SDNTeZoPBbmH8B4nEx6''\<rparr>"
          and d = standIn and addr = depositAddress
          and env = repeatingEnv and fromPayload = "\<lparr>payloadChain = ''Bitcoin''\<rparr>"
          and fuel = 5 and shardPublicKey = "[2, 3]" and gHash = "[7]"]
    by (simp add: c)
qed

text \<open>The error is not always the unsupported-asset error: a request for an
  unsupported asset whose payload names another chain fails on the payload.\<close>

theorem unsupported_asset_error_counterexample:
  "createGatewayAddress standIn testnetChain ''ETH'' \<lparr>payloadChain = ''Ethereum''\<rparr> [2, 3] [7] =
     Inl (InvalidPayload ''Ethereum'' ''Bitcoin'') \<and>
   createGatewayAddress standIn testnetChain ''ETH'' \<lparr>payloadChain = ''Ethereum''\<rparr> [2, 3] [7] \<noteq>
     Inl (AssetNotSupported ''ETH'' ''Bitcoin'')"
  by (simp add: createGatewayAddress_def testnetChain_def)

subsection \<open>Unit conversion\<close>

text \<open>C6. A value with at most 8 decimal places, that is one whose multiple by \<open>10\<^sup>8\<close>
  is an integer, is returned unchanged by \<open>toSats\<close> followed by \<open>fromSats\<close>.\<close>

theorem fromSats_toSats:
  assumes "v * 10 ^ 8 \<in> \<int>"
  shows "fromSats (toSats v) = v"
proof -
  from assms obtain k :: int where k: "v * 10 ^ 8 = of_int k"
    by (auto elim: Ints_cases)
  have sats: "toSats v = of_int k"
    unfolding toSats_def using decimalPlaces_exact [of "v * 10 ^ 8" 0 k] k by simp
  have v: "v = of_int k / 10 ^ 8"
    using k by (simp add: field_simps)
  have "of_int k / 10 ^ 8 * 10 ^ 20 = (of_int (k * 10 ^ 12) :: rat)"
    by simp
  then have exact: "decimalPlaces 20 (of_int k / 10 ^ 8) = of_int k / 10 ^ 8"
    by (rule decimalPlaces_exact)
  have "fromSats (toSats v) = decimalPlaces 20 (of_int k / 10 ^ 8)"
    unfolding fromSats_def dividedBy_def sats ..
  also note exact
  also note v [symmetric]
  finally show ?thesis .
qed

theorem fromSats_toSats_witness:
  "(12345678 / 10 ^ 8 :: rat) * 10 ^ 8 \<in> \<int> \<and>
   toSats (12345678 / 10 ^ 8) = 12345678 \<and>
   fromSats (toSats (12345678 / 10 ^ 8)) = 12345678 / 10 ^ 8"
proof -
  have h: "(12345678 / 10 ^ 8 :: rat) * 10 ^ 8 \<in> \<int>" by simp
  have s: "toSats (12345678 / 10 ^ 8) = 12345678"
    using decimalPlaces_exact [of 12345678 0 12345678] by (simp add: toSats_def)
  show ?thesis using h s fromSats_toSats [OF h] by simp
qed

subsection \<open>The loop ends by cancellation only\<close>

text \<open>C7. Once the payload and the asset have passed their tests, the watcher returns
  if and only if the caller's predicate answers true at some call, and it never throws,
  whatever the API answers. The predicate is called at the top of every iteration: a
  session whose predicate first answers true at call \<open>n\<close> returns there, after exactly
  \<open>n\<close> full iterations, and while the predicate answers false the loop is still
  running. An iteration whose query fails logs the error, sleeps and is followed by
  the next iteration.\<close>

theorem watchForDeposits_returns_iff_cancelled:
  assumes "payloadChain fromPayload = chain this" and "assetIsNative this asset"
  shows "((\<exists>fuel. fst (watchForDeposits d this env asset fromPayload addr fuel) = Returned) \<longleftrightarrow>
            (\<exists>n. listenerCancelled env n)) \<and>
         (\<forall>fuel e. fst (watchForDeposits d this env asset fromPayload addr fuel) \<noteq> Threw e) \<and>
         (\<forall>n fuel. (\<forall>i<n. \<not> listenerCancelled env i) \<and> listenerCancelled env n \<and> n < fuel \<longrightarrow>
            watchForDeposits d this env asset fromPayload addr fuel =
              (Returned,
               discoverTXs d env addr @
               concat (map (pollIteration d env addr) [0..<n]) @
               [CallListenerCancelled True])) \<and>
         (\<forall>fuel. (\<forall>i<fuel. \<not> listenerCancelled env i) \<longrightarrow>
            watchForDeposits d this env asset fromPayload addr fuel =
              (Running,
               discoverTXs d env addr @ concat (map (pollIteration d env addr) [0..<fuel]))) \<and>
         (\<forall>i e. fetchUTXOs env addr i = Inl e \<longrightarrow>
            pollIteration d env addr i =
              [CallListenerCancelled False, CallFetchUTXOs addr, ConsoleError e, Sleep 15])"
proof -
  note loop = watchForDeposits_loop [OF assms]
  have returned: "watchForDeposits d this env asset fromPayload addr fuel =
      (Returned, discoverTXs d env addr @ concat (map (pollIteration d env addr) [0..<n]) @
         [CallListenerCancelled True])"
    if "\<forall>i<n. \<not> listenerCancelled env i" "listenerCancelled env n" "n < fuel" for n fuel
    using pollLoop_returned [OF that] by (simp add: loop)
  have running: "watchForDeposits d this env asset fromPayload addr fuel =
      (Running, discoverTXs d env addr @ concat (map (pollIteration d env addr) [0..<fuel]))"
    if "\<forall>i<fuel. \<not> listenerCancelled env i" for fuel
    using pollLoop_running [OF that] by (simp add: loop)
  have "\<exists>fuel. fst (watchForDeposits d this env asset fromPayload addr fuel) = Returned"
    if "listenerCancelled env n" for n
  proof -
    define m where "m = (LEAST k. listenerCancelled env k)"
    have "listenerCancelled env m"
      unfolding m_def using that by (rule LeastI)
    moreover have "\<forall>i<m. \<not> listenerCancelled env i"
      unfolding m_def using not_less_Least by blast
    ultimately have "fst (watchForDeposits d this env asset fromPayload addr (Suc m)) = Returned"
      using returned [of m "Suc m"] by simp
    then show ?thesis ..
  qed
  moreover have "\<exists>n. listenerCancelled env n"
    if "fst (watchForDeposits d this env asset fromPayload addr fuel) = Returned" for fuel
    using that pollLoop_returned_cancelled [of d env addr 0 fuel] by (auto simp: loop)
  moreover have "fst (watchForDeposits d this env asset fromPayload addr fuel) \<noteq> Threw e"
    for fuel e
    using pollLoop_no_throw [of d env addr 0 fuel e] by (simp add: loop)
  moreover have "pollIteration d env addr i =
      [CallListenerCancelled False, CallFetchUTXOs addr, ConsoleError e, Sleep 15]"
    if "fetchUTXOs env addr i = Inl e" for i e
    using that by (simp add: pollIteration_def)
  ultimately show ?thesis
    using returned running by blast
qed

theorem watchForDeposits_returns_iff_cancelled_witness:
  "payloadChain \<lparr>payloadChain = ''Bitcoin''\<rparr> = chain testnetChain \<and>
   assetIsNative testnetChain ''BTC'' \<and>
   \<not> listenerCancelled flakyEnv 0 \<and> \<not> listenerCancelled flakyEnv 1 \<and> listenerCancelled flakyEnv 2 \<and>
   watchForDeposits standIn testnetChain flakyEnv ''BTC'' \<lparr>payloadChain = ''Bitcoin''\<rparr>
     depositAddress 3 =
     (Returned,
      [CallFetchTXs depositAddress,
       CallFetchTXs depositAddress,
       CallOnDeposit sampleTransaction,
       CallListenerCancelled False,
       CallFetchUTXOs depositAddress,
       ConsoleError ''rate limited'',
       Sleep 15,
       CallListenerCancelled False,
       CallFetchUTXOs depositAddress,
       CallOnDeposit sampleTransaction,
       Sleep 15,
       CallListenerCancelled True]) \<and>
   fst (watchForDeposits standIn testnetChain flakyEnv ''BTC'' \<lparr>payloadChain = ''Bitcoin''\<rparr>
     depositAddress 2) = Running"
proof -
  note t = watchForDeposits_returns_iff_cancelled [OF testnetChain_guards,
      of standIn flakyEnv depositAddress]
  have c: "(\<forall>i<2. \<not> listenerCancelled flakyEnv i) \<and> listenerCancelled flakyEnv 2 \<and> (2::nat) < 3"
    by (simp add: flakyEnv_def)
  from t c have "watchForDeposits standIn testnetChain flakyEnv ''BTC'' \<lparr>payloadChain = ''Bitcoin''\<rparr>
     depositAddress 3 =
     (Returned,
      discoverTXs standIn flakyEnv depositAddress @
      concat (map (pollIteration standIn flakyEnv depositAddress) [0..<2]) @
      [CallListenerCancelled True])"
    by blast
  moreover from t flakyEnv_open
  have "watchForDeposits standIn testnetChain flakyEnv ''BTC'' \<lparr>payloadChain = ''Bitcoin''\<rparr>
     depositAddress 2 =
     (Running,
      discoverTXs standIn flakyEnv depositAddress @
      concat (map (pollIteration standIn flakyEnv depositAddress) [0..<2]))"
    by blast
  ultimately show ?thesis
    using testnetChain_guards by (simp add: run_simps flakyEnv_def)
qed

subsection \<open>One attempt per iteration\<close>

text \<open>C8, as the class has it. In the polling loop the query for unspent outputs is
  attempted once in every iteration, with no retry: after \<open>n\<close> iterations there have
  been \<open>n\<close> attempts, every failure among them has been logged once, and the loop is
  still running.\<close>

theorem fetchUTXOs_attempted_once:
  assumes "payloadChain fromPayload = chain this" and "assetIsNative this asset"
    and "\<forall>i<n. \<not> listenerCancelled env i"
  shows "fetchUTXOsAttempts addr (snd (watchForDeposits d this env asset fromPayload addr n)) = n \<and>
         consoleErrors (snd (watchForDeposits d this env asset fromPayload addr n)) =
           concat (map (\<lambda>i. case fetchUTXOs env addr i of Inl e \<Rightarrow> [e] | Inr _ \<Rightarrow> []) [0..<n]) \<and>
         fst (watchForDeposits d this env asset fromPayload addr n) = Running"
  using pollLoop_running [OF assms(3), of d addr]
  by (simp add: watchForDeposits_loop [OF assms(1,2)] fetchUTXOsAttempts_append fetchUTXOsAttempts_discoverTXs
      fetchUTXOsAttempts_iterations consoleErrors_append consoleErrors_discoverTXs consoleErrors_iterations)

theorem fetchUTXOs_attempted_once_witness:
  "payloadChain \<lparr>payloadChain = ''Bitcoin''\<rparr> = chain testnetChain \<and>
   assetIsNative testnetChain ''BTC'' \<and>
   \<not> listenerCancelled flakyEnv 0 \<and> \<not> listenerCancelled flakyEnv 1 \<and>
   fetchUTXOsAttempts depositAddress
     (snd (watchForDeposits standIn testnetChain flakyEnv ''BTC'' \<lparr>payloadChain = ''Bitcoin''\<rparr>
        depositAddress 2)) = 2 \<and>
   consoleErrors
     (snd (watchForDeposits standIn testnetChain flakyEnv ''BTC'' \<lparr>payloadChain = ''Bitcoin''\<rparr>
        depositAddress 2)) = [''rate limited''] \<and>
   fst (watchForDeposits standIn testnetChain flakyEnv ''BTC'' \<lparr>payloadChain = ''Bitcoin''\<rparr>
        depositAddress 2) = Running"
  using fetchUTXOs_attempted_once [OF testnetChain_guards flakyEnv_open,
      of depositAddress standIn] testnetChain_guards
  by (simp add: first_two flakyEnv_def)

text \<open>There is no second attempt: in a session whose queries all fail, the first
  iteration asks once, logs the error and sleeps, and the session ends at the next
  cancellation test with one attempt made.\<close>

theorem fetchUTXOs_retried_counterexample:
  "watchForDeposits standIn testnetChain failingEnv ''BTC'' \<lparr>payloadChain = ''Bitcoin''\<rparr>
     depositAddress 2 =
     (Returned,
      [CallFetchTXs depositAddress,
       CallFetchTXs depositAddress,
       CallListenerCancelled False,
       CallFetchUTXOs depositAddress,
       ConsoleError ''timeout'',
       Sleep 15,
       CallListenerCancelled True]) \<and>
   fetchUTXOsAttempts depositAddress
     (snd (watchForDeposits standIn testnetChain failingEnv ''BTC'' \<lparr>payloadChain = ''Bitcoin''\<rparr>
        depositAddress 2)) = 1"
  by (simp add: watchForDeposits_loop [OF testnetChain_guards] run_simps failingEnv_def
      fetchUTXOsAttempts_def)

subsection \<open>Construction\<close>

text \<open>C9. The constructor looks the selector up in \<open>this.configMap\<close>, which at that
  point is the empty object of the field initialiser, whatever map the concrete chain
  declares. So no selector is ever resolved: construction from a selector fails for
  every selector, with the unknown-network error, or, when the selector is a name that
  every object inherits, with the runtime's error in the loop over the providers. Only a
  configuration object constructs an instance.\<close>

theorem new_BitcoinBaseChain_selector_unresolved:
  "new_BitcoinBaseChain (Selector ''testnet'') = Inl (UnknownNetwork ''testnet'') \<and>
   new_BitcoinBaseChain (Selector ''constructor'') = Inl ProvidersNotIterable \<and>
   new_BitcoinBaseChain (Selector s) =
     Inl (if s \<in> set objectPrototypeKeys then ProvidersNotIterable else UnknownNetwork s) \<and>
   new_BitcoinBaseChain (Config btcTestnet) = Inr testnetChain"
  by (simp add: new_BitcoinBaseChain_def getProperty_def configMapInitialiser_def
      objectPrototypeKeys_def testnetChain_def btcTestnet_def withAPI_def)

subsection \<open>Balances\<close>

text \<open>C10. For a supported asset and an address that \<open>validateAddress\<close> accepts,
  \<open>getBalance\<close> returns 0: the method looks nothing up.\<close>

theorem getBalance_zero:
  assumes "assetIsSupported this asset" and "validateAddress d this addr"
  shows "getBalance d this asset addr = Inr 0"
  using assms
  by (simp add: getBalance_def assertAssetIsSupported_def assetIsSupported_def)

theorem getBalance_zero_witness:
  "assetIsSupported testnetChain ''BTC'' \<and>
   validateAddress standIn testnetChain ''1A1zP1eP5QGefi2DMPTfTL5SLmv7DivfNa'' \<and>
   getBalance standIn testnetChain ''BTC'' ''1A1zP1eP5QGefi2DMPTfTL5SLmv7DivfNa'' = Inr 0"
proof -
  have a: "assetIsSupported testnetChain ''BTC''"
    by (simp add: assetIsSupported_def assetIsNative_def testnetChain_def btcTestnet_def)
  have v: "validateAddress standIn testnetChain ''1A1zP1eP5QGefi2DMPTfTL5SLmv7DivfNa''"
    by (simp add: validateAddress_def standIn_def testnetChain_def btcTestnet_def)
  show ?thesis using a v getBalance_zero [OF a v] by simp
qed

end
